theory Spec2Isabelle
  imports Complex_Main
begin

section \<open>The Python runtime functions used by animation.py\<close>

text \<open>
  Python's \<open>float\<close> values are modelled by the real numbers and Python's unbounded
  \<open>int\<close> by \<open>int\<close>: every numeric statement below is about the exact value of the
  expression the program writes down, not about its IEEE-754 rounding.
\<close>

definition py_int :: "real \<Rightarrow> int" where
  \<comment> \<open>\<open>int(x)\<close> on a float: truncation towards zero.\<close>
  "py_int x = (if 0 \<le> x then \<lfloor>x\<rfloor> else \<lceil>x\<rceil>)"

definition py_round :: "real \<Rightarrow> int" where
  \<comment> \<open>\<open>round(x)\<close> with one argument: nearest integer, ties to the even one.\<close>
  "py_round x =
     (let f = \<lfloor>x\<rfloor>; d = x - of_int f
      in if d < 1 / 2 then f
         else if 1 / 2 < d then f + 1
         else if even f then f else f + 1)"

definition radians :: "real \<Rightarrow> real" where
  "radians d = d * pi / 180"

definition hypot :: "real \<Rightarrow> real \<Rightarrow> real" where
  "hypot x y = sqrt (x * x + y * y)"

definition atan2 :: "real \<Rightarrow> real \<Rightarrow> real" where
  \<comment> \<open>\<open>math.atan2(y, x)\<close>: the angle of the vector \<open>(x, y)\<close> in \<open>(-pi, pi]\<close>.\<close>
  "atan2 y x =
     (if 0 < x then arctan (y / x)
      else if x < 0 then (if 0 \<le> y then arctan (y / x) + pi else arctan (y / x) - pi)
      else if 0 < y then pi / 2
      else if y < 0 then - (pi / 2)
      else 0)"

definition py_range :: "int \<Rightarrow> int \<Rightarrow> int \<Rightarrow> int list" where
  \<comment> \<open>\<open>range(start, stop, step)\<close> for a positive step.\<close>
  "py_range start stop step =
     map (\<lambda>k. start + int k * step) [0..<nat ((stop - start + step - 1) div step)]"

section \<open>Constants\<close>

definition WIDTH :: int where "WIDTH = 800"
definition HEIGHT :: int where "HEIGHT = 600"
definition FPS :: int where "FPS = 60"
definition TIME_LIMIT :: real where "TIME_LIMIT = 10"

definition PENDULUM_ANCHOR :: "real \<times> real" where "PENDULUM_ANCHOR = (400, 100)"
definition PENDULUM_LENGTH :: real where "PENDULUM_LENGTH = 150"
definition GRAVITY :: real where "GRAVITY = 0.5"
definition DAMPING :: real where "DAMPING = 0.96"

definition HEXAGON_SIDE :: real where "HEXAGON_SIDE = 20"
definition HEXAGON_ROTATION_SPEED :: real where "HEXAGON_ROTATION_SPEED = radians 3"

definition TRAIL_LENGTH :: nat where "TRAIL_LENGTH = 8"

definition LIGHT_BEAM_THRESHOLD :: real where "LIGHT_BEAM_THRESHOLD = 5"
definition LIGHT_BEAM_SPREAD :: real where "LIGHT_BEAM_SPREAD = radians 30"
definition BEAM_COUNT :: nat where "BEAM_COUNT = 6"
definition BEAM_LENGTH :: real where "BEAM_LENGTH = 100"

definition GRID_SPACING :: int where "GRID_SPACING = 15"
definition GRID_WARP_RADIUS :: real where "GRID_WARP_RADIUS = 150"

definition NUM_VORTEX_PARTICLES :: nat where "NUM_VORTEX_PARTICLES = 100"
definition VORTEX_ROTATION_SPEED :: real where "VORTEX_ROTATION_SPEED = 0.02"
definition VORTEX_CENTER :: "int \<times> int" where "VORTEX_CENTER = (WIDTH div 2, HEIGHT div 2)"

type_synonym rgb = "int \<times> int \<times> int"

definition BLACK :: rgb where "BLACK = (0, 0, 0)"
definition CYAN :: rgb where "CYAN = (0, 255, 255)"
definition PURPLE :: rgb where "PURPLE = (128, 0, 128)"
definition WHITE :: rgb where "WHITE = (255, 255, 255)"

section \<open>Drawing calls as data\<close>

text \<open>
  Every pygame call that touches a surface is recorded as one value of \<open>draw\<close>, in the
  order the program issues it. The program draws on the screen and on three temporary
  surfaces that it blits onto the screen.
\<close>

type_synonym point = "real \<times> real"

datatype surface = Screen | TrailSurf | BeamsSurf | GridSurf

datatype colour = RGB int int int | RGBA int int int int

fun opaque :: "rgb \<Rightarrow> colour" where
  "opaque (r, g, b) = RGB r g b"

datatype draw =
    Fill surface colour
  | Line surface colour point point int
  | Polygon surface colour "point list"
  | Circle surface colour "int \<times> int" int
  | Blit surface surface
  | Flip

section \<open>Utility functions\<close>

fun interpolate_color :: "rgb \<Rightarrow> rgb \<Rightarrow> real \<Rightarrow> rgb" where
  "interpolate_color (r1, g1, b1) (r2, g2, b2) t =
     (py_int (of_int r1 * (1 - t) + of_int r2 * t),
      py_int (of_int g1 * (1 - t) + of_int g2 * t),
      py_int (of_int b1 * (1 - t) + of_int b2 * t))"

section \<open>Program state\<close>

record particle =
  p_angle :: real
  p_radius :: real

record anim_state =
  angle :: real
  angular_velocity :: real
  angular_acceleration :: real
  hexagon_angle :: real
  trail :: "point list"
  vortex_particles :: "particle list"
  running :: bool

definition hexagon_points :: "point list" where
  "hexagon_points =
     map (\<lambda>i. (HEXAGON_SIDE * cos (radians (60 * real i)),
               HEXAGON_SIDE * sin (radians (60 * real i)))) [0..<6]"

definition initial_state :: "particle list \<Rightarrow> anim_state" where
  \<comment> \<open>The module-level assignments before the loop; the particles are the random draws.\<close>
  "initial_state ps =
     \<lparr>angle = pi / 4, angular_velocity = 0, angular_acceleration = 0,
      hexagon_angle = 0, trail = [], vortex_particles = ps, running = True\<rparr>"

section \<open>Drawing functions\<close>

definition draw_hexagon :: "surface \<Rightarrow> point \<Rightarrow> real \<Rightarrow> colour \<Rightarrow> draw list" where
  "draw_hexagon surf center ang color =
     (let rotated_points =
        map (\<lambda>(x, y).
               (let rx = x * cos ang - y * sin ang;
                    ry = x * sin ang + y * cos ang
                in (fst center + rx, snd center + ry))) hexagon_points
      in [Polygon surf color rotated_points])"

definition trail_segment :: "point list \<Rightarrow> nat \<Rightarrow> draw" where
  \<comment> \<open>The body of the loop of \<open>draw_neon_trail\<close> for index \<open>i\<close>.\<close>
  "trail_segment trail_points i =
     (let n = length trail_points;
          t = real i / real (n - 1);
          color = interpolate_color PURPLE CYAN t;
          alpha = py_int (255 * (real i + 1) / real n)
      in case color of (r, g, b) \<Rightarrow>
           Line TrailSurf (RGBA r g b alpha) (trail_points ! i) (trail_points ! (i + 1)) 3)"

definition draw_neon_trail :: "surface \<Rightarrow> point list \<Rightarrow> draw list" where
  "draw_neon_trail surf trail_points =
     (if length trail_points < 2 then []
      else map (trail_segment trail_points) [0..<length trail_points - 1]
           @ [Blit surf TrailSurf])"

definition light_beam :: "point \<Rightarrow> nat \<Rightarrow> real \<Rightarrow> nat \<Rightarrow> draw" where
  \<comment> \<open>The body of the loop of \<open>draw_light_beams\<close> for index \<open>i\<close>.\<close>
  "light_beam center count len i =
     (let half_spread = LIGHT_BEAM_SPREAD / 2;
          central_angle = real i * (2 * pi / real count);
          angle1 = central_angle - half_spread;
          angle2 = central_angle + half_spread;
          point1 = center;
          point2 = (fst center + len * cos angle1, snd center + len * sin angle1);
          point3 = (fst center + len * cos angle2, snd center + len * sin angle2)
      in Polygon BeamsSurf (RGBA 255 255 255 80) [point1, point2, point3])"

definition draw_light_beams :: "surface \<Rightarrow> point \<Rightarrow> nat \<Rightarrow> real \<Rightarrow> draw list" where
  "draw_light_beams surf center count len =
     map (light_beam center count len) [0..<count] @ [Blit surf BeamsSurf]"

definition warp_new_r :: "real \<Rightarrow> real" where
  \<comment> \<open>\<open>new_r = round(r / GRID_SPACING) * GRID_SPACING\<close>\<close>
  "warp_new_r r = of_int (py_round (r / of_int GRID_SPACING) * GRID_SPACING)"

definition warp_point :: "point \<Rightarrow> int \<times> int \<Rightarrow> point" where
  \<comment> \<open>\<open>(new_x, new_y)\<close> of the warp branch of \<open>draw_warped_grid\<close>.\<close>
  "warp_point warp_center xy =
     (let dx = of_int (fst xy) - fst warp_center;
          dy = of_int (snd xy) - snd warp_center;
          r = hypot dx dy;
          theta = atan2 dy dx;
          new_r = warp_new_r r;
          new_x = fst warp_center + new_r * cos theta;
          new_y = snd warp_center + new_r * sin theta
      in (new_x, new_y))"

definition grid_dot :: "point \<Rightarrow> real \<Rightarrow> int \<times> int \<Rightarrow> draw" where
  \<comment> \<open>The body of the two nested loops of \<open>draw_warped_grid\<close> at lattice point \<open>(x, y)\<close>.\<close>
  "grid_dot warp_center warp_radius xy =
     (let dx = of_int (fst xy) - fst warp_center;
          dy = of_int (snd xy) - snd warp_center;
          r = hypot dx dy
      in if r < warp_radius \<and> r \<noteq> 0
         then (case warp_point warp_center xy of (new_x, new_y) \<Rightarrow>
                 Circle GridSurf (RGBA 50 50 50 150) (py_int new_x, py_int new_y) 2)
         else Circle GridSurf (RGBA 50 50 50 150) xy 1)"

definition draw_warped_grid :: "surface \<Rightarrow> point \<Rightarrow> real \<Rightarrow> draw list" where
  "draw_warped_grid surf warp_center warp_radius =
     concat (map (\<lambda>x. map (\<lambda>y. grid_dot warp_center warp_radius (x, y))
                           (py_range 0 HEIGHT GRID_SPACING))
                 (py_range 0 WIDTH GRID_SPACING))
     @ [Blit surf GridSurf]"

definition update_particle :: "particle \<Rightarrow> particle" where
  "update_particle p = p\<lparr>p_angle := p_angle p - VORTEX_ROTATION_SPEED\<rparr>"

definition draw_particle :: "surface \<Rightarrow> int \<times> int \<Rightarrow> particle \<Rightarrow> draw" where
  "draw_particle surf center p =
     (let x = of_int (fst center) + p_radius p * cos (p_angle p);
          y = of_int (snd center) + p_radius p * sin (p_angle p)
      in Circle surf (opaque WHITE) (py_int x, py_int y) 1)"

definition update_and_draw_vortex ::
  "surface \<Rightarrow> particle list \<Rightarrow> int \<times> int \<Rightarrow> particle list \<times> draw list" where
  "update_and_draw_vortex surf particles center =
     (let ps = map update_particle particles
      in (ps, map (draw_particle surf center) ps))"

section \<open>The main animation loop\<close>

datatype event = QUIT | OtherEvent

definition handle_events :: "event list \<Rightarrow> bool \<Rightarrow> bool" where
  "handle_events evs run = fold (\<lambda>e r. if e = QUIT then False else r) evs run"

definition update_physics :: "real \<Rightarrow> real \<Rightarrow> real \<Rightarrow> anim_state \<Rightarrow> anim_state" where
  \<comment> \<open>Lines 171 to 174, with the three constants as parameters.\<close>
  "update_physics gravity len damping st =
     (let st1 = st\<lparr>angular_acceleration := (- gravity / len) * sin (angle st)\<rparr>;
          st2 = st1\<lparr>angular_velocity := angular_velocity st1 + angular_acceleration st1\<rparr>;
          st3 = st2\<lparr>angular_velocity := angular_velocity st2 * damping\<rparr>
      in st3\<lparr>angle := angle st3 + angular_velocity st3\<rparr>)"

definition bob_position :: "real \<Rightarrow> point" where
  "bob_position a =
     (fst PENDULUM_ANCHOR + PENDULUM_LENGTH * sin a,
      snd PENDULUM_ANCHOR + PENDULUM_LENGTH * cos a)"

definition update_trail :: "point list \<Rightarrow> point \<Rightarrow> point list" where
  \<comment> \<open>\<open>trail.append(bob)\<close>, then \<open>trail.pop(0)\<close> when longer than \<open>TRAIL_LENGTH\<close>.\<close>
  "update_trail tr bob =
     (let tr1 = tr @ [bob]
      in if length tr1 > TRAIL_LENGTH then tl tr1 else tr1)"

definition beams_of :: "anim_state \<Rightarrow> point \<Rightarrow> draw list" where
  \<comment> \<open>Lines 196 to 198: the gate in front of \<open>draw_light_beams\<close>.\<close>
  "beams_of st bob =
     (let velocity = \<bar>angular_velocity st\<bar> * PENDULUM_LENGTH
      in if velocity > LIGHT_BEAM_THRESHOLD
         then draw_light_beams Screen bob BEAM_COUNT BEAM_LENGTH
         else [])"

definition check_time_limit :: "int \<Rightarrow> int \<Rightarrow> bool \<Rightarrow> bool" where
  \<comment> \<open>Lines 208 to 210; \<open>now\<close> is what \<open>pygame.time.get_ticks()\<close> returns there.\<close>
  "check_time_limit start_ticks now run =
     (let elapsed = of_int (now - start_ticks) / 1000
      in if elapsed > TIME_LIMIT then False else run)"

definition loop_body :: "int \<Rightarrow> event list \<Rightarrow> int \<Rightarrow> anim_state \<Rightarrow> anim_state \<times> draw list" where
  \<comment> \<open>One iteration of \<open>while running\<close>: the events polled and the clock reading are inputs.\<close>
  "loop_body start_ticks evs now st0 =
     (let st1 = st0\<lparr>running := handle_events evs (running st0)\<rparr>;
          d_fill = [Fill Screen (opaque BLACK)];
          st2 = update_physics GRAVITY PENDULUM_LENGTH DAMPING st1;
          bob = bob_position (angle st2);
          d_rod = [Line Screen (opaque CYAN) PENDULUM_ANCHOR bob 2];
          st3 = st2\<lparr>hexagon_angle := hexagon_angle st2 + HEXAGON_ROTATION_SPEED\<rparr>;
          d_hex = draw_hexagon Screen bob (hexagon_angle st3) (opaque CYAN);
          st4 = st3\<lparr>trail := update_trail (trail st3) bob\<rparr>;
          d_trail = draw_neon_trail Screen (trail st4);
          d_beams = beams_of st4 bob;
          d_grid = draw_warped_grid Screen bob GRID_WARP_RADIUS;
          vx = update_and_draw_vortex Screen (vortex_particles st4) VORTEX_CENTER;
          st5 = st4\<lparr>vortex_particles := fst vx\<rparr>;
          st6 = st5\<lparr>running := check_time_limit start_ticks now (running st5)\<rparr>
      in (st6, d_fill @ d_rod @ d_hex @ d_trail @ d_beams @ d_grid @ snd vx @ [Flip]))"

text \<open>
  The environment of a run: \<open>start_ticks\<close>, and for the iteration with index \<open>i\<close> the
  events polled at its top and the clock reading at its time-limit check.
\<close>

record environment =
  start_ticks :: int
  events_at :: "nat \<Rightarrow> event list"
  ticks_at :: "nat \<Rightarrow> int"

definition step :: "environment \<Rightarrow> nat \<Rightarrow> anim_state \<Rightarrow> anim_state" where
  "step env i st = fst (loop_body (start_ticks env) (events_at env i) (ticks_at env i) st)"

definition frame :: "environment \<Rightarrow> nat \<Rightarrow> anim_state \<Rightarrow> draw list" where
  "frame env i st = snd (loop_body (start_ticks env) (events_at env i) (ticks_at env i) st)"

partial_function (option) main_loop :: "environment \<Rightarrow> nat \<Rightarrow> anim_state \<Rightarrow> anim_state option" where
  "main_loop env i st = (if running st then main_loop env (Suc i) (step env i st) else Some st)"

fun after_ticks :: "environment \<Rightarrow> nat \<Rightarrow> anim_state \<Rightarrow> anim_state" where
  \<comment> \<open>The state once the loop has got through at most \<open>k\<close> iterations.\<close>
  "after_ticks env 0 st = st"
| "after_ticks env (Suc k) st =
     (let s = after_ticks env k st in if running s then step env k s else s)"

section \<open>Quantities and inputs named by the properties\<close>

definition bob_of_tick :: "environment \<Rightarrow> anim_state \<Rightarrow> nat \<Rightarrow> point" where
  \<comment> \<open>The bob position computed by the iteration with index \<open>k\<close> of a run from \<open>st\<close>.\<close>
  "bob_of_tick env st k = bob_position (angle (after_ticks env (Suc k) st))"

definition quiet_env :: environment where
  \<comment> \<open>A run with no events whose clock has not moved since the start.\<close>
  "quiet_env = \<lparr>start_ticks = 0, events_at = (\<lambda>i. []), ticks_at = (\<lambda>i. 0)\<rparr>"

definition swinging_through :: anim_state where
  "swinging_through =
     \<lparr>angle = 0, angular_velocity = 1, angular_acceleration = 0, hexagon_angle = 0,
      trail = [], vortex_particles = [], running = True\<rparr>"

definition elapsed_at :: "environment \<Rightarrow> nat \<Rightarrow> real" where
  \<comment> \<open>\<open>elapsed\<close> as line 208 computes it in the iteration with index \<open>i\<close>.\<close>
  "elapsed_at env i = of_int (ticks_at env i - start_ticks env) / 1000"

definition second_env :: environment where
  \<comment> \<open>No events; the clock reads one more second at every time-limit check.\<close>
  "second_env = \<lparr>start_ticks = 0, events_at = (\<lambda>i. []), ticks_at = (\<lambda>i. 1000 * (int i + 1))\<rparr>"

fun is_beam_draw :: "draw \<Rightarrow> bool" where
  \<comment> \<open>The calls of \<open>draw_light_beams\<close>: they draw on, or blit, the beams surface.\<close>
  "is_beam_draw (Polygon s c ps) = (s = BeamsSurf)"
| "is_beam_draw (Line s c p q w) = (s = BeamsSurf)"
| "is_beam_draw (Circle s c p r) = (s = BeamsSurf)"
| "is_beam_draw (Fill s c) = (s = BeamsSurf)"
| "is_beam_draw (Blit dst src) = (src = BeamsSurf)"
| "is_beam_draw Flip = False"

definition at_rest_with :: "real \<Rightarrow> anim_state" where
  \<comment> \<open>The bob hanging straight down with angular velocity \<open>v\<close>.\<close>
  "at_rest_with v =
     \<lparr>angle = 0, angular_velocity = v, angular_acceleration = 0, hexagon_angle = 0,
      trail = [], vortex_particles = [], running = True\<rparr>"

definition grid_r :: "point \<Rightarrow> int \<times> int \<Rightarrow> real" where
  \<comment> \<open>\<open>r\<close> of \<open>draw_warped_grid\<close> at the lattice point \<open>xy\<close>.\<close>
  "grid_r warp_center xy =
     hypot (of_int (fst xy) - fst warp_center) (of_int (snd xy) - snd warp_center)"

definition grid_theta :: "point \<Rightarrow> int \<times> int \<Rightarrow> real" where
  \<comment> \<open>\<open>theta\<close> of \<open>draw_warped_grid\<close> at the lattice point \<open>xy\<close>.\<close>
  "grid_theta warp_center xy =
     atan2 (of_int (snd xy) - snd warp_center) (of_int (fst xy) - fst warp_center)"

definition eight_points :: "point list" where
  \<comment> \<open>A full trail: eight positions, oldest first.\<close>
  "eight_points = [(0, 0), (1, 0), (2, 0), (3, 0), (4, 0), (5, 0), (6, 0), (7, 0)]"

definition blend_factor :: "nat \<Rightarrow> nat \<Rightarrow> real" where
  \<comment> \<open>\<open>t = i / (n - 1)\<close> of \<open>draw_neon_trail\<close>.\<close>
  "blend_factor n i = real i / real (n - 1)"

section \<open>What one iteration does to each part of the state\<close>

lemma angle_update_physics:
  "angle (update_physics g l d st)
     = angle st + (angular_velocity st + (- g / l) * sin (angle st)) * d"
  by (simp add: update_physics_def Let_def)

lemma velocity_update_physics:
  "angular_velocity (update_physics g l d st)
     = (angular_velocity st + (- g / l) * sin (angle st)) * d"
  by (simp add: update_physics_def Let_def)

lemma acceleration_update_physics:
  "angular_acceleration (update_physics g l d st) = (- g / l) * sin (angle st)"
  by (simp add: update_physics_def Let_def)

lemma angle_step:
  "angle (step env i st) = angle (update_physics GRAVITY PENDULUM_LENGTH DAMPING st)"
  by (simp add: step_def loop_body_def Let_def update_physics_def)

lemma velocity_step:
  "angular_velocity (step env i st)
     = angular_velocity (update_physics GRAVITY PENDULUM_LENGTH DAMPING st)"
  by (simp add: step_def loop_body_def Let_def update_physics_def)

lemma acceleration_step:
  "angular_acceleration (step env i st)
     = angular_acceleration (update_physics GRAVITY PENDULUM_LENGTH DAMPING st)"
  by (simp add: step_def loop_body_def Let_def update_physics_def)

lemma trail_step:
  "trail (step env i st) = update_trail (trail st) (bob_position (angle (step env i st)))"
  by (simp add: step_def loop_body_def Let_def update_physics_def)

lemma running_step:
  "running (step env i st) =
     check_time_limit (start_ticks env) (ticks_at env i)
       (handle_events (events_at env i) (running st))"
  by (simp add: step_def loop_body_def Let_def update_physics_def)

lemma handle_events_iff: "handle_events evs r \<longleftrightarrow> r \<and> QUIT \<notin> set evs"
  unfolding handle_events_def by (induction evs arbitrary: r) auto

lemma check_time_limit_iff: "check_time_limit s n r \<longleftrightarrow> r \<and> n - s \<le> 10000"
  by (auto simp: check_time_limit_def Let_def TIME_LIMIT_def)

section \<open>The loop stops for good\<close>

lemma running_antimono_step:
  "running (after_ticks env (Suc k) st) \<Longrightarrow> running (after_ticks env k st)"
  by (auto simp: Let_def split: if_splits)

lemma running_antimono:
  "running (after_ticks env k st) \<Longrightarrow> j \<le> k \<Longrightarrow> running (after_ticks env j st)"
proof (induction k)
  case 0
  then show ?case by simp
next
  case (Suc k)
  show ?case
  proof (cases "j = Suc k")
    case True
    with Suc.prems show ?thesis by simp
  next
    case False
    with Suc.prems have "j \<le> k" by simp
    moreover have "running (after_ticks env k st)"
      using Suc.prems(1) by (rule running_antimono_step)
    ultimately show ?thesis using Suc.IH by simp
  qed
qed

lemma running_after_ticks:
  "running (after_ticks env k st) \<longleftrightarrow>
     running st \<and>
     (\<forall>i<k. QUIT \<notin> set (events_at env i) \<and> ticks_at env i - start_ticks env \<le> 10000)"
proof (induction k)
  case 0
  show ?case by simp
next
  case (Suc k)
  show ?case
  proof (cases "running (after_ticks env k st)")
    case True
    then have "running (after_ticks env (Suc k) st) \<longleftrightarrow>
        QUIT \<notin> set (events_at env k) \<and> ticks_at env k - start_ticks env \<le> 10000"
      by (simp add: Let_def running_step handle_events_iff check_time_limit_iff)
    with True Suc.IH show ?thesis by (auto simp: less_Suc_eq)
  next
    case False
    then have "\<not> running (after_ticks env (Suc k) st)" by (simp add: Let_def)
    with False Suc.IH show ?thesis by (auto simp: less_Suc_eq)
  qed
qed

section \<open>The trail is a sliding window\<close>

lemma update_trail_cases:
  "update_trail tr b = (if length tr < TRAIL_LENGTH then tr @ [b] else tl tr @ [b])"
  by (cases tr) (auto simp: update_trail_def Let_def TRAIL_LENGTH_def)

lemma update_trail_window:
  assumes "tr = map f [t - TRAIL_LENGTH..<t]"
  shows "update_trail tr (f t) = map f [Suc t - TRAIL_LENGTH..<Suc t]"
proof (cases "t < TRAIL_LENGTH")
  case True
  then have "length tr < TRAIL_LENGTH" using assms by simp
  moreover have "t - TRAIL_LENGTH = 0" "Suc t - TRAIL_LENGTH = 0" using True by simp_all
  ultimately show ?thesis using assms by (simp add: update_trail_cases)
next
  case False
  then have len: "\<not> length tr < TRAIL_LENGTH" using assms by (simp add: TRAIL_LENGTH_def)
  have lt: "t - TRAIL_LENGTH < t" using False by (simp add: TRAIL_LENGTH_def)
  have "[t - TRAIL_LENGTH..<t] = (t - TRAIL_LENGTH) # [Suc (t - TRAIL_LENGTH)..<t]"
    using lt by (simp add: upt_conv_Cons)
  moreover have "Suc (t - TRAIL_LENGTH) = Suc t - TRAIL_LENGTH" using False by simp
  ultimately have "tl tr = map f [Suc t - TRAIL_LENGTH..<t]" using assms by simp
  moreover have "Suc t - TRAIL_LENGTH \<le> t" using False by (simp add: TRAIL_LENGTH_def)
  ultimately show ?thesis using len by (simp add: update_trail_cases)
qed

lemma trail_after_ticks:
  assumes "trail st = []" and "t = 0 \<or> running (after_ticks env (t - 1) st)"
  shows "trail (after_ticks env t st) = map (bob_of_tick env st) [t - TRAIL_LENGTH..<t]"
  using assms(2)
proof (induction t)
  case 0
  then show ?case using assms(1) by simp
next
  case (Suc t)
  then have run: "running (after_ticks env t st)" by simp
  then have "t = 0 \<or> running (after_ticks env (t - 1) st)"
    by (metis diff_le_self running_antimono)
  then have IH: "trail (after_ticks env t st) = map (bob_of_tick env st) [t - TRAIL_LENGTH..<t]"
    by (rule Suc.IH)
  have eq: "after_ticks env (Suc t) st = step env t (after_ticks env t st)"
    using run by (simp add: Let_def)
  have "trail (after_ticks env (Suc t) st)
          = update_trail (trail (after_ticks env t st)) (bob_of_tick env st t)"
    unfolding bob_of_tick_def eq by (rule trail_step)
  then show ?case using update_trail_window[OF IH] by simp
qed

text \<open>
  C3. In a run that starts with an empty trail, once \<open>t \<ge> TRAIL_LENGTH\<close> iterations have
  been executed the trail has exactly \<open>TRAIL_LENGTH\<close> entries, and they are the bob
  positions of the last \<open>TRAIL_LENGTH\<close> iterations, oldest first. Each update appends the
  new position at the end and, once the trail is full, drops the first (oldest) entry.
\<close>

theorem trail_holds_last_positions:
  assumes "trail st = []"
    and "TRAIL_LENGTH \<le> t"
    and "running (after_ticks env (t - 1) st)"
  shows "length (trail (after_ticks env t st)) = TRAIL_LENGTH
       \<and> trail (after_ticks env t st) = map (bob_of_tick env st) [t - TRAIL_LENGTH..<t]
       \<and> update_trail tr b = (if length tr < TRAIL_LENGTH then tr @ [b] else tl tr @ [b])"
proof -
  have "trail (after_ticks env t st) = map (bob_of_tick env st) [t - TRAIL_LENGTH..<t]"
    using assms(1,3) by (simp add: trail_after_ticks)
  moreover from this have "length (trail (after_ticks env t st)) = TRAIL_LENGTH"
    using assms(2) by simp
  ultimately show ?thesis by (simp add: update_trail_cases)
qed

theorem trail_holds_last_positions_witness:
  "trail (initial_state []) = []
   \<and> TRAIL_LENGTH \<le> 11
   \<and> running (after_ticks quiet_env (11 - 1) (initial_state []))
   \<and> length (trail (after_ticks quiet_env 11 (initial_state []))) = TRAIL_LENGTH
   \<and> trail (after_ticks quiet_env 11 (initial_state []))
       = map (bob_of_tick quiet_env (initial_state [])) [3, 4, 5, 6, 7, 8, 9, 10]"
proof -
  have h1: "trail (initial_state []) = []" by (simp add: initial_state_def)
  have h2: "TRAIL_LENGTH \<le> 11" by (simp add: TRAIL_LENGTH_def)
  have h3: "running (after_ticks quiet_env (11 - 1) (initial_state []))"
    unfolding running_after_ticks by (simp add: initial_state_def quiet_env_def)
  have "[11 - TRAIL_LENGTH..<11] = [3, 4, 5, 6, 7, 8, 9, 10]"
    unfolding TRAIL_LENGTH_def by code_simp
  then show ?thesis
    using trail_holds_last_positions [OF h1 h2 h3] h1 h2 h3 by (simp add: TRAIL_LENGTH_def)
qed

section \<open>The pendulum integrator\<close>

text \<open>
  C1. One tick of the integrator computes the acceleration from the old angle, then the
  velocity as (old velocity + new acceleration) times the damping, then the angle as old
  angle + new velocity. This holds for the integrator with any constants and for the loop
  iteration with the program's constants; from the initial state (angle \<open>pi / 4\<close>,
  velocity 0, gravity 0.5, length 150, damping 0.96) the three values after one iteration
  are exactly the three expressions, hence within any tolerance of them.
\<close>

theorem integrator_tick:
  "angular_acceleration (update_physics g l d st) = - (g / l) * sin (angle st)
   \<and> angular_velocity (update_physics g l d st)
       = (angular_velocity st + angular_acceleration (update_physics g l d st)) * d
   \<and> angle (update_physics g l d st) = angle st + angular_velocity (update_physics g l d st)
   \<and> angular_acceleration (step env i st) = - (GRAVITY / PENDULUM_LENGTH) * sin (angle st)
   \<and> angular_velocity (step env i st)
       = (angular_velocity st + angular_acceleration (step env i st)) * DAMPING
   \<and> angle (step env i st) = angle st + angular_velocity (step env i st)
   \<and> angular_acceleration (step env i (initial_state ps)) = - (0.5 / 150) * sin (pi / 4)
   \<and> angular_velocity (step env i (initial_state ps)) = (- (0.5 / 150) * sin (pi / 4)) * 0.96
   \<and> angle (step env i (initial_state ps)) = pi / 4 + (- (0.5 / 150) * sin (pi / 4)) * 0.96"
  by (simp add: angle_step velocity_step acceleration_step angle_update_physics
      velocity_update_physics acceleration_update_physics initial_state_def
      GRAVITY_def PENDULUM_LENGTH_def DAMPING_def)

text \<open>
  C7. For a damping factor strictly between 0 and 1 and a zero acceleration term, the
  velocity update never increases the magnitude of the angular velocity; the magnitude
  decreases strictly whenever the velocity is not zero.
\<close>

theorem damping_monotone:
  assumes "0 < d" and "d < 1" and "(- g / l) * sin (angle st) = 0"
  shows "\<bar>angular_velocity (update_physics g l d st)\<bar> \<le> \<bar>angular_velocity st\<bar>
       \<and> (angular_velocity st \<noteq> 0 \<longrightarrow>
            \<bar>angular_velocity (update_physics g l d st)\<bar> < \<bar>angular_velocity st\<bar>)"
proof -
  have v: "angular_velocity (update_physics g l d st) = angular_velocity st * d"
    using assms(3) by (simp add: velocity_update_physics)
  have "\<bar>angular_velocity st * d\<bar> = \<bar>angular_velocity st\<bar> * d"
    using assms(1) by (simp add: abs_mult)
  moreover have "\<bar>angular_velocity st\<bar> * d \<le> \<bar>angular_velocity st\<bar> * 1"
    using assms(2) by (intro mult_left_mono) simp_all
  moreover have "angular_velocity st \<noteq> 0 \<Longrightarrow>
      \<bar>angular_velocity st\<bar> * d < \<bar>angular_velocity st\<bar> * 1"
    using assms(2) by (intro mult_strict_left_mono) simp_all
  ultimately show ?thesis unfolding v by auto
qed

theorem damping_monotone_witness:
  "0 < DAMPING \<and> DAMPING < 1
   \<and> (- GRAVITY / PENDULUM_LENGTH) * sin (angle swinging_through) = 0
   \<and> angular_velocity (update_physics GRAVITY PENDULUM_LENGTH DAMPING swinging_through) = 0.96
   \<and> \<bar>angular_velocity (update_physics GRAVITY PENDULUM_LENGTH DAMPING swinging_through)\<bar>
       < \<bar>angular_velocity swinging_through\<bar>"
proof -
  have h1: "0 < DAMPING" and h2: "DAMPING < 1" by (simp_all add: DAMPING_def)
  have h3: "(- GRAVITY / PENDULUM_LENGTH) * sin (angle swinging_through) = 0"
    by (simp add: swinging_through_def)
  have "angular_velocity (update_physics GRAVITY PENDULUM_LENGTH DAMPING swinging_through) = 0.96"
    by (simp add: velocity_update_physics swinging_through_def DAMPING_def)
  moreover have "angular_velocity swinging_through \<noteq> 0" by (simp add: swinging_through_def)
  ultimately show ?thesis
    using damping_monotone [OF h1 h2 h3] h1 h2 h3 by simp
qed

section \<open>Termination of the main loop\<close>

lemma main_loop_unroll:
  "(\<forall>j<k. running (after_ticks env j st)) \<Longrightarrow>
     main_loop env 0 st = main_loop env k (after_ticks env k st)"
proof (induction k)
  case 0
  show ?case by simp
next
  case (Suc k)
  then have run: "running (after_ticks env k st)" by simp
  have "main_loop env 0 st = main_loop env k (after_ticks env k st)"
    using Suc by simp
  also have "\<dots> = main_loop env (Suc k) (step env k (after_ticks env k st))"
    using run by (subst main_loop.simps) simp
  also have "step env k (after_ticks env k st) = after_ticks env (Suc k) st"
    using run by (simp add: Let_def)
  finally show ?case .
qed

lemma main_loop_stops:
  assumes "\<not> running (after_ticks env k st)"
  shows "\<exists>m\<le>k. main_loop env 0 st = Some (after_ticks env m st)
            \<and> \<not> running (after_ticks env m st)"
proof -
  define m where "m = (LEAST j. \<not> running (after_ticks env j st))"
  have stop: "\<not> running (after_ticks env m st)"
    unfolding m_def using assms by (rule LeastI)
  have le: "m \<le> k" unfolding m_def using assms by (rule Least_le)
  have "\<forall>j<m. running (after_ticks env j st)"
    unfolding m_def using not_less_Least by blast
  then have "main_loop env 0 st = main_loop env m (after_ticks env m st)"
    by (rule main_loop_unroll)
  also have "\<dots> = Some (after_ticks env m st)"
    using stop by (subst main_loop.simps) simp
  finally show ?thesis using stop le by blast
qed

lemma elapsed_over_limit:
  "TIME_LIMIT < elapsed_at env i \<longleftrightarrow> 10000 < ticks_at env i - start_ticks env"
  by (auto simp: elapsed_at_def TIME_LIMIT_def)

lemma elapsed_at_limit:
  "TIME_LIMIT \<le> elapsed_at env i \<longleftrightarrow> 10000 \<le> ticks_at env i - start_ticks env"
  by (auto simp: elapsed_at_def TIME_LIMIT_def)

text \<open>
  C6. Whatever events arrive (also none at all): when the time-limit check of an iteration
  reads an elapsed time that has reached the limit, and the clock moves on before the next
  check, the loop ends at that check or at the next one. The test of the program is
  \<open>elapsed > TIME_LIMIT\<close>, so a reading above the limit ends the loop in the same
  iteration and a reading exactly at the limit ends it one iteration later.
\<close>

theorem time_limit_terminates:
  assumes "TIME_LIMIT \<le> elapsed_at env k"
    and "ticks_at env k < ticks_at env (Suc k)"
  shows "\<exists>m. m \<le> k + 2
           \<and> (TIME_LIMIT < elapsed_at env k \<longrightarrow> m \<le> k + 1)
           \<and> main_loop env 0 st = Some (after_ticks env m st)
           \<and> \<not> running (after_ticks env m st)"
proof (cases "TIME_LIMIT < elapsed_at env k")
  case True
  then have "\<not> running (after_ticks env (k + 1) st)"
    unfolding running_after_ticks elapsed_over_limit by (auto intro: exI[of _ k])
  from main_loop_stops[OF this] obtain m where "m \<le> k + 1"
    and "main_loop env 0 st = Some (after_ticks env m st)"
    and "\<not> running (after_ticks env m st)" by blast
  then show ?thesis by (intro exI[of _ m]) simp
next
  case False
  have "10000 < ticks_at env (Suc k) - start_ticks env"
    using assms unfolding elapsed_at_limit by simp
  then have "\<not> running (after_ticks env (k + 2) st)"
    unfolding running_after_ticks by (auto intro: exI[of _ "Suc k"])
  from main_loop_stops[OF this] obtain m where "m \<le> k + 2"
    and "main_loop env 0 st = Some (after_ticks env m st)"
    and "\<not> running (after_ticks env m st)" by blast
  then show ?thesis using False by (intro exI[of _ m]) simp
qed

theorem time_limit_terminates_witness:
  "TIME_LIMIT \<le> elapsed_at second_env 9
   \<and> ticks_at second_env 9 < ticks_at second_env (Suc 9)
   \<and> running (after_ticks second_env 10 (initial_state []))
   \<and> (\<exists>m. m \<le> 9 + 2
         \<and> main_loop second_env 0 (initial_state []) = Some (after_ticks second_env m (initial_state []))
         \<and> \<not> running (after_ticks second_env m (initial_state [])))"
proof -
  have h1: "TIME_LIMIT \<le> elapsed_at second_env 9"
    by (simp add: elapsed_at_def second_env_def TIME_LIMIT_def)
  have h2: "ticks_at second_env 9 < ticks_at second_env (Suc 9)"
    by (simp add: second_env_def)
  have h3: "running (after_ticks second_env 10 (initial_state []))"
    unfolding running_after_ticks by (auto simp: second_env_def initial_state_def)
  show ?thesis
    using time_limit_terminates [OF h1 h2, of "initial_state []"] h1 h2 h3 by blast
qed

section \<open>The frame drawn by one iteration\<close>

lemma frame_eq:
  "frame env i st =
     [Fill Screen (opaque BLACK)]
     @ [Line Screen (opaque CYAN) PENDULUM_ANCHOR (bob_position (angle (step env i st))) 2]
     @ draw_hexagon Screen (bob_position (angle (step env i st)))
         (hexagon_angle st + HEXAGON_ROTATION_SPEED) (opaque CYAN)
     @ draw_neon_trail Screen (trail (step env i st))
     @ beams_of (step env i st) (bob_position (angle (step env i st)))
     @ draw_warped_grid Screen (bob_position (angle (step env i st))) GRID_WARP_RADIUS
     @ snd (update_and_draw_vortex Screen (vortex_particles st) VORTEX_CENTER)
     @ [Flip]"
  by (simp add: frame_def step_def loop_body_def Let_def update_physics_def beams_of_def)

lemma no_beam_hexagon: "filter is_beam_draw (draw_hexagon Screen c a col) = []"
  by (simp add: draw_hexagon_def Let_def)

lemma no_beam_trail: "filter is_beam_draw (draw_neon_trail Screen tr) = []"
  by (auto simp: draw_neon_trail_def trail_segment_def Let_def filter_empty_conv split: prod.splits)

lemma no_beam_grid: "filter is_beam_draw (draw_warped_grid Screen c r) = []"
  by (auto simp: draw_warped_grid_def grid_dot_def Let_def filter_empty_conv split: prod.splits)

lemma no_beam_vortex: "filter is_beam_draw (snd (update_and_draw_vortex Screen ps c)) = []"
  by (auto simp: update_and_draw_vortex_def draw_particle_def Let_def filter_empty_conv WHITE_def)

lemma all_beam_beams: "filter is_beam_draw (draw_light_beams Screen c n l) = draw_light_beams Screen c n l"
  by (auto simp: draw_light_beams_def light_beam_def Let_def filter_id_conv)

lemma filter_beams_of: "filter is_beam_draw (beams_of st b) = beams_of st b"
  by (simp add: beams_of_def Let_def all_beam_beams)

lemma beam_draws_of_frame:
  "filter is_beam_draw (frame env i st)
     = beams_of (step env i st) (bob_position (angle (step env i st)))"
  unfolding frame_eq
  by (simp add: no_beam_hexagon no_beam_trail no_beam_grid no_beam_vortex filter_beams_of
      BLACK_def CYAN_def)

text \<open>
  C4. In every iteration the draw calls of the light-beam renderer (six triangles on the
  beams surface and the blit of that surface) are part of the frame exactly when
  \<open>\<bar>angular_velocity\<bar> * PENDULUM_LENGTH > LIGHT_BEAM_THRESHOLD\<close>, with the velocity
  just updated by the integrator; otherwise the frame has no beam draw call at all, and the
  iteration goes on as usual.
\<close>

theorem beams_gated_by_speed:
  "filter is_beam_draw (frame env i st)
     = (if \<bar>angular_velocity (step env i st)\<bar> * PENDULUM_LENGTH > LIGHT_BEAM_THRESHOLD
        then draw_light_beams Screen (bob_position (angle (step env i st))) BEAM_COUNT BEAM_LENGTH
        else [])
   \<and> length (draw_light_beams Screen b BEAM_COUNT BEAM_LENGTH) = 7
   \<and> (filter is_beam_draw (frame env i st) \<noteq> [])
       = (\<bar>angular_velocity (step env i st)\<bar> * PENDULUM_LENGTH > LIGHT_BEAM_THRESHOLD)"
proof -
  have len: "length (draw_light_beams Screen c BEAM_COUNT BEAM_LENGTH) = 7" for c
    by (simp add: draw_light_beams_def BEAM_COUNT_def)
  then have "draw_light_beams Screen c BEAM_COUNT BEAM_LENGTH \<noteq> []" for c
    by (metis length_0_conv zero_neq_numeral)
  then show ?thesis using len
    by (simp add: beam_draws_of_frame beams_of_def Let_def)
qed

theorem beams_gated_by_speed_witness:
  "\<bar>angular_velocity (step quiet_env 0 (at_rest_with (5 / 144)))\<bar> * PENDULUM_LENGTH = 5
   \<and> filter is_beam_draw (frame quiet_env 0 (at_rest_with (5 / 144))) = []
   \<and> \<bar>angular_velocity (step quiet_env 0 (at_rest_with (6 / 144)))\<bar> * PENDULUM_LENGTH = 6
   \<and> length (filter is_beam_draw (frame quiet_env 0 (at_rest_with (6 / 144)))) = 7"
proof -
  have v: "angular_velocity (step quiet_env 0 (at_rest_with v)) = v * 0.96" for v
    by (simp add: velocity_step velocity_update_physics at_rest_with_def DAMPING_def)
  have a: "\<bar>angular_velocity (step quiet_env 0 (at_rest_with (5 / 144)))\<bar> * PENDULUM_LENGTH = 5"
    unfolding v by (simp add: PENDULUM_LENGTH_def)
  have b: "\<bar>angular_velocity (step quiet_env 0 (at_rest_with (6 / 144)))\<bar> * PENDULUM_LENGTH = 6"
    unfolding v by (simp add: PENDULUM_LENGTH_def)
  show ?thesis
    using beams_gated_by_speed [of quiet_env 0 "at_rest_with (5 / 144)"]
      beams_gated_by_speed [of quiet_env 0 "at_rest_with (6 / 144)"] a b
    by (simp add: LIGHT_BEAM_THRESHOLD_def)
qed

text \<open>
  C9. Every frame starts with the clearing of the screen, followed by a cyan line of width
  2 on the screen from the anchor \<open>(400, 100)\<close> to the bob position computed from the
  angle the integrator has just updated, followed by the hexagon.
\<close>

theorem rod_drawn_before_hexagon:
  "\<exists>rest. frame env i st =
     Fill Screen (RGB 0 0 0)
     # Line Screen (RGB 0 255 255) (400, 100)
         (bob_position (angle (update_physics GRAVITY PENDULUM_LENGTH DAMPING st))) 2
     # draw_hexagon Screen (bob_position (angle (update_physics GRAVITY PENDULUM_LENGTH DAMPING st)))
         (hexagon_angle st + HEXAGON_ROTATION_SPEED) (RGB 0 255 255)
     @ rest"
  unfolding frame_eq
  by (simp add: BLACK_def CYAN_def PENDULUM_ANCHOR_def angle_step)

section \<open>Rounding and the angle of a vector\<close>

lemma py_round_cases:
  "(py_round x = \<lfloor>x\<rfloor> \<and> x - of_int \<lfloor>x\<rfloor> \<le> 1 / 2)
   \<or> (py_round x = \<lfloor>x\<rfloor> + 1 \<and> 1 / 2 \<le> x - of_int \<lfloor>x\<rfloor>)"
  by (auto simp: py_round_def Let_def)

lemma py_round_nearest: "\<bar>of_int (py_round x) - x\<bar> \<le> \<bar>of_int j - x\<bar>"
proof -
  have fl: "of_int \<lfloor>x\<rfloor> \<le> x" "x < of_int \<lfloor>x\<rfloor> + 1" by linarith+
  show ?thesis
  proof (cases "j \<le> \<lfloor>x\<rfloor>")
    case True
    then have "(of_int j :: real) \<le> of_int \<lfloor>x\<rfloor>" by simp
    then show ?thesis using py_round_cases[of x] fl by auto
  next
    case False
    then have "\<lfloor>x\<rfloor> + 1 \<le> j" by simp
    then have "(of_int (\<lfloor>x\<rfloor> + 1) :: real) \<le> of_int j" by (simp only: of_int_le_iff)
    then have "of_int \<lfloor>x\<rfloor> + 1 \<le> (of_int j :: real)" by simp
    then show ?thesis using py_round_cases[of x] fl by auto
  qed
qed

lemma py_round_nonneg: "0 \<le> x \<Longrightarrow> 0 \<le> py_round x"
  using py_round_cases[of x] by (auto simp: zero_le_floor)

lemma py_round_below_half: "0 \<le> x \<Longrightarrow> x < 1 / 2 \<Longrightarrow> py_round x = 0"
proof -
  assume a: "0 \<le> x" "x < 1 / 2"
  then have "\<lfloor>x\<rfloor> = 0" by (simp add: floor_eq_iff)
  then show ?thesis using a by (simp add: py_round_def Let_def)
qed

lemma hypot_nonneg: "0 \<le> hypot x y"
  by (simp add: hypot_def)

lemma hypot_eq_0: "hypot x y = 0 \<longleftrightarrow> x = 0 \<and> y = 0"
  by (auto simp: hypot_def add_nonneg_eq_0_iff)

lemma sqrt_one_plus_quotient:
  assumes "x \<noteq> 0"
  shows "sqrt (1 + (y / x)\<^sup>2) = hypot x y / \<bar>x\<bar>"
proof -
  have "1 + (y / x)\<^sup>2 = (x * x + y * y) / x\<^sup>2"
    using assms by (simp add: field_simps power2_eq_square)
  then show ?thesis
    by (simp add: hypot_def real_sqrt_divide)
qed

lemma cos_sin_atan2:
  assumes "hypot x y \<noteq> 0"
  shows "cos (atan2 y x) = x / hypot x y \<and> sin (atan2 y x) = y / hypot x y"
proof -
  have "x \<noteq> 0 \<or> y \<noteq> 0" using assms by (simp add: hypot_eq_0)
  then consider "0 < x" | "x < 0" | "x = 0" "0 < y" | "x = 0" "y < 0"
    by linarith
  then show ?thesis
  proof cases
    case 1
    then have "sqrt (1 + (y / x)\<^sup>2) = hypot x y / x"
      using sqrt_one_plus_quotient[of x y] by simp
    then show ?thesis using 1 by (simp add: atan2_def cos_arctan sin_arctan)
  next
    case 2
    then have "sqrt (1 + (y / x)\<^sup>2) = hypot x y / (- x)"
      using sqrt_one_plus_quotient[of x y] by simp
    then show ?thesis using 2 by (simp add: atan2_def cos_arctan sin_arctan)
  next
    case 3
    then show ?thesis by (simp add: atan2_def hypot_def)
  next
    case 4
    then show ?thesis by (simp add: atan2_def hypot_def)
  qed
qed

section \<open>The warped grid\<close>

lemma grid_dot_eq:
  "grid_dot wc wr xy =
     (if grid_r wc xy < wr \<and> grid_r wc xy \<noteq> 0
      then Circle GridSurf (RGBA 50 50 50 150)
             (py_int (fst (warp_point wc xy)), py_int (snd (warp_point wc xy))) 2
      else Circle GridSurf (RGBA 50 50 50 150) xy 1)"
  by (simp add: grid_dot_def grid_r_def Let_def split: prod.splits)

lemma warp_point_eq:
  "warp_point wc xy =
     (fst wc + warp_new_r (grid_r wc xy) * cos (grid_theta wc xy),
      snd wc + warp_new_r (grid_r wc xy) * sin (grid_theta wc xy))"
  by (simp add: warp_point_def grid_r_def grid_theta_def Let_def)

lemma grid_direction:
  assumes "grid_r wc xy \<noteq> 0"
  shows "cos (grid_theta wc xy) = (of_int (fst xy) - fst wc) / grid_r wc xy"
    and "sin (grid_theta wc xy) = (of_int (snd xy) - snd wc) / grid_r wc xy"
  using cos_sin_atan2[of "of_int (fst xy) - fst wc" "of_int (snd xy) - snd wc"] assms
  by (simp_all add: grid_r_def grid_theta_def)

lemma warp_new_r_eq: "warp_new_r r = of_int (py_round (r / 15)) * 15"
  by (simp add: warp_new_r_def GRID_SPACING_def)

lemma warp_new_r_nonneg: "0 \<le> r \<Longrightarrow> 0 \<le> warp_new_r r"
  by (simp add: warp_new_r_eq py_round_nonneg)

lemma warp_new_r_nearest: "\<bar>warp_new_r r - r\<bar> \<le> \<bar>of_int (j * GRID_SPACING) - r\<bar>"
proof -
  have "\<bar>of_int (py_round (r / 15)) - r / 15\<bar> \<le> \<bar>of_int j - r / 15\<bar>"
    by (rule py_round_nearest)
  then have "15 * \<bar>of_int (py_round (r / 15)) - r / 15\<bar> \<le> 15 * \<bar>of_int j - r / 15\<bar>"
    by simp
  moreover have "15 * \<bar>of_int (py_round (r / 15)) - r / 15\<bar> = \<bar>warp_new_r r - r\<bar>"
    unfolding warp_new_r_eq by (simp add: abs_if field_simps)
  moreover have "15 * \<bar>of_int j - r / 15\<bar> = \<bar>of_int (j * GRID_SPACING) - r\<bar>"
    by (simp add: GRID_SPACING_def abs_if field_simps)
  ultimately show ?thesis by simp
qed

lemma hypot_scale: "0 \<le> c \<Longrightarrow> hypot (c * x) (c * y) = c * hypot x y"
proof -
  assume c: "0 \<le> c"
  have "c * x * (c * x) + c * y * (c * y) = c\<^sup>2 * (x * x + y * y)"
    by (simp add: power2_eq_square algebra_simps)
  then show ?thesis using c by (simp add: hypot_def real_sqrt_mult)
qed

lemma warp_point_radius:
  assumes "0 < grid_r wc xy"
  shows "hypot (fst (warp_point wc xy) - fst wc) (snd (warp_point wc xy) - snd wc)
           = warp_new_r (grid_r wc xy)"
proof -
  let ?r = "grid_r wc xy" and ?dx = "of_int (fst xy) - fst wc" and ?dy = "of_int (snd xy) - snd wc"
  have nz: "?r \<noteq> 0" using assms by simp
  have c: "0 \<le> warp_new_r ?r / ?r"
    using assms by (simp add: warp_new_r_nonneg)
  have "fst (warp_point wc xy) - fst wc = warp_new_r ?r / ?r * ?dx"
    and "snd (warp_point wc xy) - snd wc = warp_new_r ?r / ?r * ?dy"
    by (simp_all add: warp_point_eq grid_direction[OF nz])
  then have "hypot (fst (warp_point wc xy) - fst wc) (snd (warp_point wc xy) - snd wc)
      = warp_new_r ?r / ?r * hypot ?dx ?dy"
    using hypot_scale[OF c] by simp
  also have "hypot ?dx ?dy = ?r" by (simp add: grid_r_def)
  finally show ?thesis using nz by simp
qed

text \<open>
  C5. For a lattice point at distance \<open>r\<close> from the warp centre with \<open>0 < r < warp_radius\<close>:
  the new radius is \<open>round(r / 15) * 15\<close>, a multiple of the grid spacing that is at least
  as close to \<open>r\<close> as any other multiple; the remapped point is
  \<open>centre + new_r * (cos theta, sin theta)\<close> with \<open>theta = atan2(dy, dx)\<close> the direction of
  the lattice point, so it lies at distance \<open>new_r\<close> from the centre; and the dot drawn has a
  radius of 2 and the pixel \<open>(int(new_x), int(new_y))\<close> of that point as its centre.
\<close>

theorem warp_snaps_to_ring:
  assumes "0 < grid_r wc xy" and "grid_r wc xy < warp_radius"
  shows "warp_new_r (grid_r wc xy) = of_int (py_round (grid_r wc xy / of_int GRID_SPACING) * GRID_SPACING)
       \<and> \<bar>warp_new_r (grid_r wc xy) - grid_r wc xy\<bar> \<le> \<bar>of_int (j * GRID_SPACING) - grid_r wc xy\<bar>
       \<and> warp_point wc xy
           = (fst wc + warp_new_r (grid_r wc xy) * cos (grid_theta wc xy),
              snd wc + warp_new_r (grid_r wc xy) * sin (grid_theta wc xy))
       \<and> cos (grid_theta wc xy) = (of_int (fst xy) - fst wc) / grid_r wc xy
       \<and> sin (grid_theta wc xy) = (of_int (snd xy) - snd wc) / grid_r wc xy
       \<and> hypot (fst (warp_point wc xy) - fst wc) (snd (warp_point wc xy) - snd wc)
           = warp_new_r (grid_r wc xy)
       \<and> grid_dot wc warp_radius xy
           = Circle GridSurf (RGBA 50 50 50 150)
               (py_int (fst (warp_point wc xy)), py_int (snd (warp_point wc xy))) 2"
proof -
  have nz: "grid_r wc xy \<noteq> 0" using assms(1) by simp
  have "warp_new_r (grid_r wc xy)
      = of_int (py_round (grid_r wc xy / of_int GRID_SPACING) * GRID_SPACING)"
    by (simp add: warp_new_r_def)
  moreover have "grid_dot wc warp_radius xy
      = Circle GridSurf (RGBA 50 50 50 150)
          (py_int (fst (warp_point wc xy)), py_int (snd (warp_point wc xy))) 2"
    using assms nz by (simp add: grid_dot_eq)
  ultimately show ?thesis
    using warp_new_r_nearest[of "grid_r wc xy" j] warp_point_eq[of wc xy]
      grid_direction[OF nz] warp_point_radius[OF assms(1)]
    by simp
qed

lemma grid_r_example: "grid_r (3, 14) (15, 30) = 20"
proof -
  have "sqrt (20 * 20) = \<bar>20\<bar>" by (rule real_sqrt_abs2)
  then have "sqrt 400 = 20" by simp
  then show ?thesis by (simp add: grid_r_def hypot_def)
qed

lemma py_round_example: "py_round (4 / 3) = 1"
proof -
  have "\<lfloor>4 / 3 :: real\<rfloor> = 1" by (simp add: floor_eq_iff)
  then show ?thesis by (simp add: py_round_def Let_def)
qed

theorem warp_snaps_to_ring_witness:
  "0 < grid_r (3, 14) (15, 30)
   \<and> grid_r (3, 14) (15, 30) < GRID_WARP_RADIUS
   \<and> grid_r (3, 14) (15, 30) = 20
   \<and> warp_new_r (grid_r (3, 14) (15, 30)) = 15
   \<and> warp_point (3, 14) (15, 30) = (12, 26)
   \<and> grid_dot (3, 14) GRID_WARP_RADIUS (15, 30) = Circle GridSurf (RGBA 50 50 50 150) (12, 26) 2"
proof -
  have h1: "0 < grid_r (3, 14) (15, 30)" by (simp add: grid_r_example)
  have h2: "grid_r (3, 14) (15, 30) < GRID_WARP_RADIUS"
    by (simp add: grid_r_example GRID_WARP_RADIUS_def)
  have nr: "warp_new_r 20 = 15" by (simp add: warp_new_r_eq py_round_example)
  note ring = warp_snaps_to_ring [OF h1 h2, of 0, unfolded grid_r_example nr]
  have c: "cos (grid_theta (3, 14) (15, 30)) = 3 / 5"
    and s: "sin (grid_theta (3, 14) (15, 30)) = 4 / 5"
    using ring by simp_all
  have wp: "warp_point (3, 14) (15, 30) = (12, 26)"
    using ring unfolding c s by simp
  have "py_int 12 = 12" "py_int 26 = 26" by (simp_all add: py_int_def)
  then have "grid_dot (3, 14) GRID_WARP_RADIUS (15, 30)
      = Circle GridSurf (RGBA 50 50 50 150) (12, 26) 2"
    using ring unfolding wp by simp
  then show ?thesis using h1 h2 wp by (simp add: grid_r_example nr)
qed

text \<open>
  C8. A lattice point that coincides with the warp centre (\<open>r = 0\<close>) is drawn unwarped: a dot
  of radius 1 at its own lattice coordinate. The warp branch, the only place where
  \<open>atan2\<close> is computed and the only one that draws a dot of radius 2, is taken exactly when
  \<open>r < warp_radius\<close> and \<open>r \<noteq> 0\<close>.
\<close>

theorem bob_cell_drawn_unwarped:
  assumes "grid_r wc xy = 0"
  shows "grid_dot wc warp_radius xy = Circle GridSurf (RGBA 50 50 50 150) xy 1
       \<and> ((\<exists>c. grid_dot wc' warp_radius' xy' = Circle GridSurf (RGBA 50 50 50 150) c 2)
            = (grid_r wc' xy' < warp_radius' \<and> grid_r wc' xy' \<noteq> 0))"
  using assms by (simp add: grid_dot_eq)

theorem bob_cell_drawn_unwarped_witness:
  "grid_r (405, 255) (405, 255) = 0
   \<and> grid_dot (405, 255) GRID_WARP_RADIUS (405, 255) = Circle GridSurf (RGBA 50 50 50 150) (405, 255) 1"
proof -
  have h: "grid_r (405, 255) (405, 255) = 0" by (simp add: grid_r_def hypot_def)
  show ?thesis using bob_cell_drawn_unwarped [OF h] h by simp
qed

text \<open>
  C10. For a lattice point at distance \<open>r\<close> from the warp centre with
  \<open>0 < r < GRID_SPACING / 2\<close> the new radius \<open>round(r / GRID_SPACING) * GRID_SPACING\<close> is 0,
  the remapped point is the warp centre itself, and the dot of radius 2 is drawn at the
  pixel \<open>(int(centre_x), int(centre_y))\<close> of the centre.
\<close>

theorem near_points_collapse:
  assumes "0 < grid_r wc xy" and "grid_r wc xy < of_int GRID_SPACING / 2"
  shows "of_int (py_round (grid_r wc xy / of_int GRID_SPACING) * GRID_SPACING) = (0 :: real)
       \<and> warp_new_r (grid_r wc xy) = 0
       \<and> warp_point wc xy = wc
       \<and> grid_dot wc GRID_WARP_RADIUS xy
           = Circle GridSurf (RGBA 50 50 50 150) (py_int (fst wc), py_int (snd wc)) 2"
proof -
  have "py_round (grid_r wc xy / 15) = 0"
    using assms by (intro py_round_below_half) (simp_all add: GRID_SPACING_def)
  then have nr: "warp_new_r (grid_r wc xy) = 0" by (simp add: warp_new_r_eq)
  then have wp: "warp_point wc xy = wc" by (simp add: warp_point_eq)
  have "grid_r wc xy < GRID_WARP_RADIUS"
    using assms(2) by (simp add: GRID_SPACING_def GRID_WARP_RADIUS_def)
  then show ?thesis using assms(1) nr wp by (simp add: grid_dot_eq warp_new_r_def)
qed

theorem near_points_collapse_witness:
  "0 < grid_r (400, 250) (405, 255)
   \<and> grid_r (400, 250) (405, 255) < of_int GRID_SPACING / 2
   \<and> warp_point (400, 250) (405, 255) = (400, 250)
   \<and> grid_dot (400, 250) GRID_WARP_RADIUS (405, 255)
       = Circle GridSurf (RGBA 50 50 50 150) (400, 250) 2"
proof -
  have r: "grid_r (400, 250) (405, 255) = sqrt 50" by (simp add: grid_r_def hypot_def)
  have h1: "0 < grid_r (400, 250) (405, 255)" unfolding r by simp
  have "sqrt 50 < 15 / 2" by (rule real_less_lsqrt) (simp_all add: power2_eq_square)
  then have h2: "grid_r (400, 250) (405, 255) < of_int GRID_SPACING / 2"
    unfolding r by (simp add: GRID_SPACING_def)
  have pi: "py_int 400 = 400" "py_int 250 = 250" by (simp_all add: py_int_def)
  show ?thesis using near_points_collapse [OF h1 h2] h1 h2 by (simp add: pi)
qed

section \<open>The gradient of the neon trail\<close>

lemma py_int_of_int: "py_int (of_int k) = k"
  by (simp add: py_int_def)

lemma interpolate_color_0: "interpolate_color c1 c2 0 = c1"
  by (cases c1; cases c2) (simp add: py_int_of_int)

lemma interpolate_color_1: "interpolate_color c1 c2 1 = c2"
  by (cases c1; cases c2) (simp add: py_int_of_int)

lemma trail_segment_colour:
  "\<exists>a. trail_segment tp i =
     (case interpolate_color PURPLE CYAN (blend_factor (length tp) i) of (r, g, b) \<Rightarrow>
        Line TrailSurf (RGBA r g b a) (tp ! i) (tp ! (i + 1)) 3)"
  by (simp add: trail_segment_def blend_factor_def Let_def split: prod.splits)

lemma first_segment_purple:
  "\<exists>a. trail_segment tp 0 = Line TrailSurf (RGBA 128 0 128 a) (tp ! 0) (tp ! 1) 3"
  by (simp add: trail_segment_def Let_def interpolate_color_0 PURPLE_def)

lemma last_blend_factor_below_1:
  assumes "2 \<le> n" and "i < n - 1"
  shows "blend_factor n i < 1"
  using assms by (simp add: blend_factor_def)

lemma floor_frac: "0 \<le> a \<Longrightarrow> 0 < b \<Longrightarrow> py_int (of_int a / of_int b) = a div b"
  by (simp add: py_int_def floor_divide_of_int_eq)

lemma seg0: "trail_segment eight_points 0 = Line TrailSurf (RGBA 128 0 128 31) (0, 0) (1, 0) 3"
proof -
  have "py_int (255 / 8) = 31" using floor_frac[of 255 8] by simp
  then show ?thesis
    by (simp add: trail_segment_def eight_points_def Let_def interpolate_color_0 PURPLE_def)
qed

lemma seg6: "trail_segment eight_points 6 = Line TrailSurf (RGBA 18 218 236 223) (6, 0) (7, 0) 3"
proof -
  have a: "py_int (1785 / 8) = 223" using floor_frac[of 1785 8] by simp
  have r: "py_int (128 / 7) = 18" using floor_frac[of 128 7] by simp
  have g: "py_int (1530 / 7) = 218" using floor_frac[of 1530 7] by simp
  have b: "py_int (1658 / 7) = 236" using floor_frac[of 1658 7] by simp
  show ?thesis
    by (simp add: trail_segment_def eight_points_def Let_def PURPLE_def CYAN_def a r g b)
qed

text \<open>
  C2. The first segment of a trail is drawn in PURPLE, with blend factor 0. The last
  segment is not drawn in CYAN: the loop runs over \<open>i < n - 1\<close> and divides by
  \<open>n - 1\<close>, so the blend factor of the newest segment is \<open>(n - 2) / (n - 1)\<close> and
  never 1. For a full trail of eight points the newest segment has the blend factor
  \<open>6 / 7\<close> and the colour \<open>(18, 218, 236)\<close>; for a trail of two points the only
  segment is PURPLE.
\<close>

theorem newest_segment_not_cyan:
  "length (draw_neon_trail Screen eight_points) = 8
   \<and> draw_neon_trail Screen eight_points ! 0
       = Line TrailSurf (RGBA 128 0 128 31) (0, 0) (1, 0) 3
   \<and> draw_neon_trail Screen eight_points ! 6
       = Line TrailSurf (RGBA 18 218 236 223) (6, 0) (7, 0) 3
   \<and> draw_neon_trail Screen eight_points ! 7 = Blit Screen TrailSurf
   \<and> blend_factor (length eight_points) 6 = 6 / 7
   \<and> draw_neon_trail Screen [(0, 0), (1, 0)]
       = [Line TrailSurf (RGBA 128 0 128 127) (0, 0) (1, 0) 3, Blit Screen TrailSurf]"
proof -
  have len: "length eight_points = 8" by (simp add: eight_points_def)
  have upt: "[0..<7] = [0, 1, 2, 3, 4, 5, 6]" by code_simp
  have d: "draw_neon_trail Screen eight_points
      = map (trail_segment eight_points) [0, 1, 2, 3, 4, 5, 6] @ [Blit Screen TrailSurf]"
    by (simp add: draw_neon_trail_def len upt)
  have half: "py_int (255 / 2) = 127" using floor_frac[of 255 2] by simp
  have two: "draw_neon_trail Screen [(0, 0), (1, 0)]
      = [Line TrailSurf (RGBA 128 0 128 127) (0, 0) (1, 0) 3, Blit Screen TrailSurf]"
    by (simp add: draw_neon_trail_def trail_segment_def Let_def interpolate_color_0 PURPLE_def half)
  show ?thesis
    unfolding d using two by (simp add: seg0 seg6 blend_factor_def len)
qed

end
